theory Spec2Isabelle
  imports Main
begin

section \<open>The sample changer of AbstractSampleChanger.py\<close>

text \<open>
  A shallow embedding of the class \<open>SampleChanger\<close> of
  \<^verbatim>\<open>HardwareObjects/abstract/AbstractSampleChanger.py\<close>. The instance (\<open>self\<close>) is a
  record that every method takes and returns; a method that can raise returns a sum whose
  left injection is the exception, together with the instance as the raise left it.
  Python names that start with an underscore lose it (\<open>_set_state\<close> is \<open>set_state\<close>),
  since an Isabelle name starts with a letter.

  The model is sequential: a background unit (greenlet) runs from its start to its end
  without another greenlet in between, and \<open>emit\<close> appends to a log of events.
\<close>

subsection \<open>Exceptions, events, samples\<close>

text \<open>
  Python exceptions. \<open>Exception msg\<close> is an instance of \<open>Exception\<close> (what every
  \<^verbatim>\<open>raise Exception(...)\<close> of the module creates). \<open>BaseException msg\<close> is one that
  \<^verbatim>\<open>except Exception\<close> does not catch and \<^verbatim>\<open>except BaseException\<close> does
  (\<open>KeyboardInterrupt\<close>, \<open>SystemExit\<close>). \<open>GreenletExit\<close> is of that second kind too,
  and is apart because gevent takes it for the regular end of a greenlet.
\<close>

datatype pyexn = Exception string | BaseException string | GreenletExit

text \<open>Python objects are named by their identity.\<close>

type_synonym oid = nat

text \<open>
  The tuples given to \<open>emit\<close>, one constructor per event name. \<open>TaskFinished\<close> carries
  \<open>(task, ret, exception)\<close>, each of which may be \<open>None\<close>.
\<close>

datatype 'r event =
    StateChanged int int
  | StatusChanged string
  | InfoChanged
  | LoadedSampleChanged "oid option"
  | SelectionChanged
  | TaskFinished "int option" "'r option" "pyexn option"
  | ContentsUpdated

text \<open>
  Modelled from the spec: the class \<open>Sample\<close> of \<^verbatim>\<open>sample_changer/Container.py\<close>, which
  is imported by the module and is not among the sources. The fields are those of the
  spec's data model that the methods below read or write. \<open>has_been_loaded\<close> is a
  Python value that is \<open>True\<close>, \<open>False\<close> or \<open>None\<close>.
\<close>

record sample =
  address :: string
  present :: bool
  scanned :: bool
  loaded :: bool
  has_been_loaded :: "bool option"

text \<open>
  Modelled from the spec: the entity tree of \<^verbatim>\<open>Container.py\<close>. A leaf is a \<open>Sample\<close>
  object, an inner node a container with its address segment and its ordered children.
\<close>

datatype component = Sample oid | Container string "component list"

subsection \<open>The instance\<close>

text \<open>
  The attributes \<open>__init__\<close> sets, the children of the changer (itself a \<open>Container\<close>),
  the store of the \<open>Sample\<close> objects, the container's dirty flag and the log of emitted
  events. \<open>state\<close> is an integer as in the source, where \<open>change_mode\<close> compares it with a
  mode. \<open>task_proc\<close> holds the greenlet of the running task; \<open>spawned\<close> counts the
  greenlets started so far and names the next one.
\<close>

record 'r sc =
  state :: int
  status :: string
  task :: "int option"
  task_proc :: "nat option"
  task_error :: "pyexn option"
  timer_update_inverval :: int
  timer_update_counter :: int
  components :: "component list"
  samples :: "oid \<Rightarrow> sample"
  dirty :: bool
  events :: "'r event list"
  spawned :: nat

text \<open>What a method that may raise gives back.\<close>

type_synonym ('r, 'a) cmd = "'r sc \<Rightarrow> (pyexn + 'a) \<times> 'r sc"

text \<open>
  The abstract methods, which a device class supplies, and two methods of
  \<^verbatim>\<open>Container.py\<close> (not among the sources), taken as parameters too:
  \<open>get_component_by_address\<close>, and \<open>assert_is_scannable\<close>, which looks at a component
  and returns or raises. Each callback may change the instance in any way, return a
  value or raise. A component is given by its identity, and \<open>None\<close> where the source
  has \<open>None\<close>; in \<open>do_scan\<close> and \<open>assert_is_scannable\<close>, where the source puts the
  changer itself in the place of \<open>None\<close>, \<open>None\<close> is the changer.
\<close>

record 'r device =
  do_update_info :: "('r, unit) cmd"
  do_change_mode :: "int \<Rightarrow> ('r, 'r) cmd"
  do_scan :: "oid option \<Rightarrow> bool \<Rightarrow> ('r, 'r) cmd"
  do_select :: "oid option \<Rightarrow> ('r, 'r) cmd"
  do_load :: "oid option \<Rightarrow> ('r, 'r) cmd"
  do_unload :: "oid option \<Rightarrow> ('r, 'r) cmd"
  do_reset :: "('r, 'r) cmd"
  get_component_by_address :: "'r sc \<Rightarrow> string \<Rightarrow> oid option"
  assert_is_scannable :: "'r sc \<Rightarrow> oid option \<Rightarrow> pyexn + unit"

subsection \<open>SampleChangerState and SampleChangerMode\<close>

named_theorems sc_consts \<open>the values of the state and mode constants\<close>

definition SampleChangerState_Unknown :: int where [sc_consts]: "SampleChangerState_Unknown = 0"
definition SampleChangerState_Ready :: int where [sc_consts]: "SampleChangerState_Ready = 1"
definition SampleChangerState_Loaded :: int where [sc_consts]: "SampleChangerState_Loaded = 2"
definition SampleChangerState_Loading :: int where [sc_consts]: "SampleChangerState_Loading = 3"
definition SampleChangerState_Unloading :: int where [sc_consts]: "SampleChangerState_Unloading = 4"
definition SampleChangerState_Selecting :: int where [sc_consts]: "SampleChangerState_Selecting = 5"
definition SampleChangerState_Scanning :: int where [sc_consts]: "SampleChangerState_Scanning = 6"
definition SampleChangerState_Resetting :: int where [sc_consts]: "SampleChangerState_Resetting = 7"
definition SampleChangerState_Charging :: int where [sc_consts]: "SampleChangerState_Charging = 8"
definition SampleChangerState_Moving :: int where [sc_consts]: "SampleChangerState_Moving = 9"
definition SampleChangerState_ChangingMode :: int where [sc_consts]: "SampleChangerState_ChangingMode = 10"
definition SampleChangerState_StandBy :: int where [sc_consts]: "SampleChangerState_StandBy = 11"
definition SampleChangerState_Disabled :: int where [sc_consts]: "SampleChangerState_Disabled = 12"
definition SampleChangerState_Alarm :: int where [sc_consts]: "SampleChangerState_Alarm = 13"
definition SampleChangerState_Fault :: int where [sc_consts]: "SampleChangerState_Fault = 14"
definition SampleChangerState_Initializing :: int where [sc_consts]: "SampleChangerState_Initializing = 15"
definition SampleChangerState_Closing :: int where [sc_consts]: "SampleChangerState_Closing = 16"

definition STATE_DESC :: "(int \<times> string) list" where
  "STATE_DESC =
    [(SampleChangerState_Ready, ''Ready''),
     (SampleChangerState_Loaded, ''Loaded''),
     (SampleChangerState_Alarm, ''Alarm''),
     (SampleChangerState_Charging, ''Charging''),
     (SampleChangerState_Disabled, ''Disabled''),
     (SampleChangerState_Fault, ''Fault''),
     (SampleChangerState_Loading, ''Loading''),
     (SampleChangerState_Resetting, ''Resetting''),
     (SampleChangerState_Scanning, ''Scanning''),
     (SampleChangerState_Selecting, ''Selecting''),
     (SampleChangerState_Unloading, ''Unloading''),
     (SampleChangerState_Moving, ''Moving''),
     (SampleChangerState_ChangingMode, ''Changing Mode''),
     (SampleChangerState_StandBy, ''StandBy''),
     (SampleChangerState_Initializing, ''Initializing''),
     (SampleChangerState_Closing, ''Closing'')]"

definition tostring :: "int \<Rightarrow> string" where
  "tostring st = (case map_of STATE_DESC st of Some d \<Rightarrow> d | None \<Rightarrow> ''Unknown'')"

definition SampleChangerMode_Unknown :: int where [sc_consts]: "SampleChangerMode_Unknown = 0"
definition SampleChangerMode_Normal :: int where [sc_consts]: "SampleChangerMode_Normal = 1"
definition SampleChangerMode_Charging :: int where [sc_consts]: "SampleChangerMode_Charging = 8"
definition SampleChangerMode_Disabled :: int where [sc_consts]: "SampleChangerMode_Disabled = 11"

subsection \<open>Events\<close>

definition emit :: "'r event \<Rightarrow> 'r sc \<Rightarrow> 'r sc" where
  "emit ev s = s\<lparr>events := events s @ [ev]\<rparr>"

definition trigger_state_changed_event :: "int \<Rightarrow> 'r sc \<Rightarrow> 'r sc" where
  "trigger_state_changed_event former s = emit (StateChanged (state s) former) s"

definition trigger_status_changed_event :: "'r sc \<Rightarrow> 'r sc" where
  "trigger_status_changed_event s = emit (StatusChanged (status s)) s"

definition trigger_loaded_sample_changed_event :: "oid option \<Rightarrow> 'r sc \<Rightarrow> 'r sc" where
  "trigger_loaded_sample_changed_event smp s = emit (LoadedSampleChanged smp) s"


definition trigger_info_changed_event :: "'r sc \<Rightarrow> 'r sc" where
  "trigger_info_changed_event s = emit InfoChanged s"

definition trigger_task_finished_event ::
  "int option \<Rightarrow> 'r option \<Rightarrow> pyexn option \<Rightarrow> 'r sc \<Rightarrow> 'r sc" where
  "trigger_task_finished_event tk ret exn s = emit (TaskFinished tk ret exn) s"

subsection \<open>Accessors and preconditions\<close>

definition get_state :: "'r sc \<Rightarrow> int" where
  "get_state s = state s"

definition get_status :: "'r sc \<Rightarrow> string" where
  "get_status s = status s"

definition get_task_error :: "'r sc \<Rightarrow> pyexn option" where
  "get_task_error s = task_error s"

definition is_ready :: "'r sc \<Rightarrow> bool" where
  "is_ready s \<longleftrightarrow>
     state s = SampleChangerState_Ready
   \<or> state s = SampleChangerState_Loaded
   \<or> state s = SampleChangerState_Charging
   \<or> state s = SampleChangerState_StandBy"

definition is_enabled :: "'r sc \<Rightarrow> bool" where
  "is_enabled s \<longleftrightarrow> state s \<noteq> SampleChangerState_Disabled"

definition assert_not_charging :: "'r sc \<Rightarrow> pyexn + unit" where
  "assert_not_charging s =
     (if state s = SampleChangerState_Charging
      then Inl (Exception ''Sample Changer is in Charging mode'')
      else Inr ())"

definition assert_can_execute_task :: "'r sc \<Rightarrow> pyexn + unit" where
  "assert_can_execute_task s =
     (if \<not> is_ready s
      then Inl (Exception (''Cannot execute task: bad state ('' @ tostring (state s) @ '')''))
      else Inr ())"

definition is_executing_task :: "'r sc \<Rightarrow> bool" where
  "is_executing_task s \<longleftrightarrow> task s \<noteq> None"

subsection \<open>The state transition\<close>

definition set_state :: "int option \<Rightarrow> string option \<Rightarrow> 'r sc \<Rightarrow> 'r sc" where
  "set_state st stat s =
     (let (stat1, s1) =
        (case st of
           None \<Rightarrow> (stat, s)
         | Some new \<Rightarrow>
             if state s \<noteq> new then
               (let former = state s;
                    s' = s\<lparr>state := new\<rparr>;
                    stat' = (case stat of None \<Rightarrow> Some (tostring new) | Some x \<Rightarrow> Some x)
                in (stat', trigger_state_changed_event former s'))
             else (stat, s))
      in (case stat1 of
            None \<Rightarrow> s1
          | Some x \<Rightarrow>
              if status s1 \<noteq> x then trigger_status_changed_event (s1\<lparr>status := x\<rparr>) else s1))"

subsection \<open>The loaded sample\<close>

text \<open>
  Modelled from the spec: \<open>Container.get_sample_list\<close> of \<^verbatim>\<open>Container.py\<close>, the
  depth-first flattening of the tree, in the order of the children.
\<close>

fun component_sample_list :: "component \<Rightarrow> oid list" where
  "component_sample_list (Sample r) = [r]"
| "component_sample_list (Container a cs) = concat (map component_sample_list cs)"

definition get_sample_list :: "'r sc \<Rightarrow> oid list" where
  "get_sample_list s = concat (map component_sample_list (components s))"

text \<open>
  Modelled from the spec: \<open>_is_dirty\<close> and \<open>_reset_dirty\<close> of \<^verbatim>\<open>Container.py\<close>, the
  flag that says whether the registry changed since the last refresh.
\<close>

definition is_dirty :: "'r sc \<Rightarrow> bool" where
  "is_dirty s = dirty s"

definition reset_dirty :: "'r sc \<Rightarrow> 'r sc" where
  "reset_dirty s = s\<lparr>dirty := False\<rparr>"

text \<open>
  Modelled from the spec: \<open>Sample.is_loaded\<close>, \<open>Sample._set_loaded\<close> and
  \<open>Component.get_address\<close> of \<^verbatim>\<open>Container.py\<close>. \<open>_set_loaded(loaded,
  has_been_loaded=None)\<close> (\<open>SampleChangerMockup\<close> calls it with both arguments) writes
  the two flags of one \<open>Sample\<close> object; without the second argument a sample that
  is set loaded has been loaded, and one that is not gets \<open>None\<close>. A write that changes
  a flag marks the registry dirty, which is what lets \<open>update_info()\<close> gather the flag
  writes of a refresh cycle into one info-changed event.
\<close>

definition is_loaded :: "'r sc \<Rightarrow> oid \<Rightarrow> bool" where
  "is_loaded s r = loaded (samples s r)"

definition set_loaded :: "oid \<Rightarrow> bool \<Rightarrow> bool option \<Rightarrow> 'r sc \<Rightarrow> 'r sc" where
  "set_loaded r b hbl s =
     (let smp = samples s r;
          hbl' = (case hbl of None \<Rightarrow> (if b then Some True else None) | Some h \<Rightarrow> Some h);
          changed = (loaded smp \<noteq> b \<or> has_been_loaded smp \<noteq> hbl')
      in s\<lparr>samples := (samples s)(r := smp\<lparr>loaded := b, has_been_loaded := hbl'\<rparr>),
           dirty := (dirty s \<or> changed)\<rparr>)"

definition get_address :: "'r sc \<Rightarrow> oid \<Rightarrow> string" where
  "get_address s r = address (samples s r)"

definition get_loaded_sample :: "'r sc \<Rightarrow> oid option" where
  "get_loaded_sample s = find (is_loaded s) (get_sample_list s)"

definition has_loaded_sample :: "'r sc \<Rightarrow> bool" where
  "has_loaded_sample s \<longleftrightarrow> get_loaded_sample s \<noteq> None"

text \<open>
  The two loops run over the list \<open>get_sample_list()\<close> returned before the first
  iteration; \<open>s != sample\<close> compares object identities.
\<close>

definition reset_loaded_sample :: "'r sc \<Rightarrow> 'r sc" where
  "reset_loaded_sample s =
     trigger_loaded_sample_changed_event None
       (foldl (\<lambda>st r. set_loaded r False None st) s (get_sample_list s))"

definition set_loaded_sample :: "oid option \<Rightarrow> 'r sc \<Rightarrow> 'r sc" where
  "set_loaded_sample smp s =
     trigger_loaded_sample_changed_event smp
       (foldl (\<lambda>st r. if Some r \<noteq> smp then set_loaded r False None st
                       else set_loaded r True None st)
          s (get_sample_list s))"

definition update_info :: "'r device \<Rightarrow> ('r, unit) cmd" where
  "update_info dev s =
     (let former_loaded = get_loaded_sample s in
      case do_update_info dev s of
        (Inl e, s1) \<Rightarrow> (Inl e, s1)
      | (Inr u, s1) \<Rightarrow>
          (let s2 = (if is_dirty s1 then trigger_info_changed_event s1 else s1);
               loaded_now = get_loaded_sample s2;
               s3 = (if loaded_now \<noteq> former_loaded then
                       (if loaded_now = None \<or> former_loaded = None
                           \<or> get_address s2 (the loaded_now) \<noteq> get_address s2 (the former_loaded)
                        then trigger_loaded_sample_changed_event loaded_now s2
                        else s2)
                     else s2)
           in (Inr (), reset_dirty s3)))"

subsection \<open>Running a task\<close>

text \<open>
  What \<open>_execute_task\<close> returns: the value of the task, its greenlet, or the
  \<open>GreenletExit\<close> object with which the greenlet ended.
\<close>

datatype 'r task_ret = Returned 'r | Greenlet nat | Exited

definition on_task_failed :: "int option \<Rightarrow> pyexn \<Rightarrow> 'r sc \<Rightarrow> 'r sc" where
  "on_task_failed tk exn s = s"

text \<open>
  The body of the background unit. \<^verbatim>\<open>except Exception\<close> lets a \<open>BaseException\<close>
  and a \<open>GreenletExit\<close> through; an exception of \<open>update_info()\<close> leaves the method
  at that line.
\<close>

definition run :: "'r device \<Rightarrow> int \<Rightarrow> ('r, 'r) cmd \<Rightarrow> ('r, 'r) cmd" where
  "run dev tk method s =
     (case method s of (r, s1) \<Rightarrow>
        (case r of
           Inl (BaseException m) \<Rightarrow> (Inl (BaseException m), s1)
         | Inl GreenletExit \<Rightarrow> (Inl GreenletExit, s1)
         | _ \<Rightarrow>
            (let exception = (case r of Inl e \<Rightarrow> Some e | Inr v \<Rightarrow> None);
                 ret = (case r of Inl e \<Rightarrow> None | Inr v \<Rightarrow> Some v)
             in case update_info dev s1 of
                  (Inl e, s2) \<Rightarrow> (Inl e, s2)
                | (Inr u, s2) \<Rightarrow>
                    (let tk' = task s2;
                         s3 = s2\<lparr>task := None, task_proc := None\<rparr>;
                         s4 = trigger_task_finished_event tk' ret exception s3
                     in case r of
                          Inl e \<Rightarrow> (Inl e, on_task_failed tk' e s4)
                        | Inr v \<Rightarrow> (Inr v, s4)))))"

text \<open>
  \<open>_run(..., wait=False)\<close> starts a greenlet, whose body has not begun when
  \<open>task_proc\<close> is assigned; with \<open>wait\<close> the caller then blocks in \<open>ret.get()\<close>, which
  returns the value of the body or raises what it raised, but for \<open>GreenletExit\<close>: a
  greenlet that ends with it has ended regularly, and \<open>get()\<close> returns the exception
  object.
\<close>

definition execute_task ::
  "'r device \<Rightarrow> int \<Rightarrow> bool \<Rightarrow> ('r, 'r) cmd \<Rightarrow> ('r, 'r task_ret) cmd" where
  "execute_task dev tk wait method s =
     (case assert_can_execute_task s of
        Inl e \<Rightarrow> (Inl e, s)
      | Inr u \<Rightarrow>
          (let s1 = s\<lparr>task := Some tk, task_error := None\<rparr>;
               s2 = set_state (Some tk) None s1;
               g = spawned s2;
               s3 = s2\<lparr>spawned := Suc g, task_proc := Some g\<rparr>
           in if wait then
                (case run dev tk method s3 of
                   (Inl GreenletExit, s4) \<Rightarrow> (Inr Exited, s4)
                 | (Inl e, s4) \<Rightarrow> (Inl e, s4)
                 | (Inr v, s4) \<Rightarrow> (Inr (Returned v), s4))
              else (Inr (Greenlet g), s3)))"

subsection \<open>Commands\<close>

definition change_mode :: "'r device \<Rightarrow> int \<Rightarrow> bool \<Rightarrow> ('r, 'r task_ret option) cmd" where
  "change_mode dev mode wait s =
     (if mode = SampleChangerMode_Unknown then (Inr None, s)
      else if mode = get_state s then (Inr None, s)
      else
        (case (if get_state s = SampleChangerState_Disabled
               then update_info dev (set_state (Some SampleChangerState_Unknown) None s)
               else if mode = SampleChangerMode_Disabled
               then (Inr (), set_state (Some SampleChangerState_Disabled) None s)
               else (Inr (), s)) of
           (Inl e, s1) \<Rightarrow> (Inl e, s1)
         | (Inr u, s1) \<Rightarrow>
             (case execute_task dev SampleChangerState_ChangingMode wait (do_change_mode dev mode) s1 of
                (Inl e, s2) \<Rightarrow> (Inl e, s2)
              | (Inr v, s2) \<Rightarrow> (Inr (Some v), s2))))"


text \<open>An argument that names a component: \<open>None\<close>, an address string or an object.\<close>

datatype comp_arg = ArgNone | ArgAddress string | ArgObject oid

definition resolve_component :: "'r device \<Rightarrow> comp_arg \<Rightarrow> 'r sc \<Rightarrow> pyexn + oid option" where
  "resolve_component dev c s =
     (case c of
        ArgNone \<Rightarrow> Inr None
      | ArgObject r \<Rightarrow> Inr (Some r)
      | ArgAddress a \<Rightarrow>
          (case get_component_by_address dev s a of
             None \<Rightarrow> Inl (Exception (''Invalid component: '' @ a))
           | Some r \<Rightarrow> Inr (Some r)))"






text \<open>
  \<open>wait_ready\<close> polls \<open>is_ready()\<close> and sleeps in between. With no other greenlet
  running the state does not change while it sleeps: it returns at once when the changer
  is ready, raises when a positive timeout has passed, and with no timeout never
  returns (\<open>None\<close>).
\<close>

definition wait_ready :: "int \<Rightarrow> 'r sc \<Rightarrow> (pyexn + unit) option" where
  "wait_ready timeout s =
     (if is_ready s then Some (Inr ())
      else if timeout > 0 then Some (Inl (Exception ''Timeout waiting ready''))
      else None)"

definition unload :: "'r device \<Rightarrow> comp_arg \<Rightarrow> bool \<Rightarrow> ('r, 'r task_ret) cmd" where
  "unload dev sample_slot wait s =
     (case resolve_component dev sample_slot s of
        Inl e \<Rightarrow> (Inl e, s)
      | Inr slot \<Rightarrow>
          (case assert_not_charging s of
             Inl e \<Rightarrow> (Inl e, s)
           | Inr u \<Rightarrow>
               if \<not> has_loaded_sample s then (Inl (Exception ''No sample is loaded''), s)
               else execute_task dev SampleChangerState_Unloading wait (do_unload dev slot) s))"

text \<open>
  \<open>load\<close> and \<open>chained_load\<close> call each other, and nothing in them bounds the depth:
  a device whose unload leaves the sample loaded and the changer ready sends \<open>load\<close>
  into \<open>chained_load\<close> again. The first argument is the depth of calls of \<open>load\<close> still
  allowed; \<open>None\<close> says it was used up.
\<close>

fun load :: "nat \<Rightarrow> 'r device \<Rightarrow> comp_arg \<Rightarrow> bool \<Rightarrow> 'r sc \<Rightarrow> ((pyexn + 'r task_ret) \<times> 'r sc) option"
and chained_load :: "nat \<Rightarrow> 'r device \<Rightarrow> oid \<Rightarrow> oid \<Rightarrow> 'r sc \<Rightarrow> ((pyexn + 'r task_ret) \<times> 'r sc) option"
where
  "load 0 dev smp wait s = None"
| "load (Suc n) dev smp wait s =
     (case resolve_component dev smp s of
        Inl e \<Rightarrow> Some (Inl e, s)
      | Inr smp' \<Rightarrow>
          (case assert_not_charging s of
             Inl e \<Rightarrow> Some (Inl e, s)
           | Inr u \<Rightarrow>
               if has_loaded_sample s then
                 (if smp' = None \<or> smp' = get_loaded_sample s then
                    Some (Inl (Exception (''The sample ''
                            @ get_address s (the (get_loaded_sample s)) @ '' is already loaded'')), s)
                  else chained_load n dev (the (get_loaded_sample s)) (the smp') s)
               else Some (execute_task dev SampleChangerState_Loading wait (do_load dev smp') s)))"
| "chained_load n dev sample_to_unload sample_to_load s =
     (case unload dev (ArgObject sample_to_unload) True s of
        (Inl e, s1) \<Rightarrow> Some (Inl e, s1)
      | (Inr v, s1) \<Rightarrow>
          (case wait_ready 10 s1 of
             None \<Rightarrow> None
           | Some (Inl e) \<Rightarrow> Some (Inl e, s1)
           | Some (Inr u) \<Rightarrow> load n dev (ArgObject sample_to_load) True s1))"

subsection \<open>The update timer\<close>

definition set_timer_update_interval :: "int \<Rightarrow> 'r sc \<Rightarrow> 'r sc" where
  "set_timer_update_interval v s = s\<lparr>timer_update_inverval := v\<rparr>"

definition on_timer_update :: "'r device \<Rightarrow> ('r, unit) cmd" where
  "on_timer_update dev s = update_info dev s"

text \<open>
  One pass of the body of the \<^verbatim>\<open>while True\<close> loop of \<open>__update_timer_task\<close>, after
  its sleep of 100 ms. \<^verbatim>\<open>except BaseException: pass\<close> ends the pass at the line that
  raised, whatever was raised.
\<close>

definition update_timer_cycle :: "'r device \<Rightarrow> 'r sc \<Rightarrow> 'r sc" where
  "update_timer_cycle dev s =
     (if is_enabled s then
        (let s1 = s\<lparr>timer_update_counter := timer_update_counter s + 1\<rparr> in
         if timer_update_counter s1 \<ge> timer_update_counter s1 then
           (case on_timer_update dev s1 of
              (Inl e, s2) \<Rightarrow> s2
            | (Inr u, s2) \<Rightarrow> s2\<lparr>timer_update_counter := 0\<rparr>)
         else s1)
      else s)"

subsection \<open>Changers and devices to run the model on\<close>

text \<open>
  A changer with two baskets, \<open>1\<close> holding the samples \<open>1:1\<close> and \<open>1:2\<close> and \<open>2\<close>
  holding \<open>2:1\<close>; it is ready and nothing is loaded. \<open>loaded_sc\<close> is the same changer
  with the sample \<open>1:1\<close> loaded and the registry clean.
\<close>

definition example_sample :: "string \<Rightarrow> sample" where
  "example_sample a =
     \<lparr>address = a, present = True, scanned = False, loaded = False,
      has_been_loaded = Some False\<rparr>"

definition example_sc :: "unit sc" where
  "example_sc =
     \<lparr>state = SampleChangerState_Ready, status = ''Ready'', task = None, task_proc = None,
      task_error = None, timer_update_inverval = 5, timer_update_counter = 0,
      components = [Container ''1'' [Sample 0, Sample 1], Container ''2'' [Sample 2]],
      samples = (\<lambda>r. example_sample (if r = 0 then ''1:1'' else if r = 1 then ''1:2'' else ''2:1'')),
      dirty = False, events = [], spawned = 0\<rparr>"

definition loaded_sc :: "unit sc" where
  "loaded_sc =
     example_sc\<lparr>samples := (samples example_sc)
       (0 := (example_sample ''1:1'')\<lparr>loaded := True, has_been_loaded := Some True\<rparr>)\<rparr>"

text \<open>\<open>disabled_sc\<close> is the changer \<open>example_sc\<close> in the state Disabled.\<close>

definition disabled_sc :: "unit sc" where
  "disabled_sc = example_sc\<lparr>state := SampleChangerState_Disabled, status := ''Disabled''\<rparr>"

text \<open>
  \<open>quiet_device\<close>: every callback returns at once and changes nothing, as the
  callbacks of \<open>SampleChangerMockup\<close> do. \<open>failing_device\<close>: the same, with a \<open>_do_load\<close>
  that raises. \<open>broken_refresh_device\<close>: the same, with a \<open>_do_update_info\<close> that raises.
  \<open>polling_device\<close>: \<open>_do_update_info\<close> reports the hardware as ready, \<open>_do_load\<close> and
  \<open>_do_unload\<close> record the sample that is loaded. \<open>jammed_device\<close>: the same, with a
  \<open>_do_unload\<close> that raises.
\<close>

definition quiet_device :: "unit device" where
  "quiet_device =
     \<lparr>do_update_info = (\<lambda>s. (Inr (), s)),
      do_change_mode = (\<lambda>mode s. (Inr (), s)),
      do_scan = (\<lambda>c recursive s. (Inr (), s)),
      do_select = (\<lambda>c s. (Inr (), s)),
      do_load = (\<lambda>smp s. (Inr (), s)),
      do_unload = (\<lambda>slot s. (Inr (), s)),
      do_reset = (\<lambda>s. (Inr (), s)),
      get_component_by_address = (\<lambda>s a. find (\<lambda>r. get_address s r = a) (get_sample_list s)),
      assert_is_scannable = (\<lambda>s c. Inr ())\<rparr>"

definition failing_device :: "unit device" where
  "failing_device = quiet_device\<lparr>do_load := (\<lambda>smp s. (Inl (Exception ''boom''), s))\<rparr>"

definition broken_refresh_device :: "unit device" where
  "broken_refresh_device =
     quiet_device\<lparr>do_update_info := (\<lambda>s. (Inl (Exception ''no connection''), s))\<rparr>"

definition polling_device :: "unit device" where
  "polling_device =
     quiet_device\<lparr>
       do_update_info := (\<lambda>s. (Inr (), set_state (Some SampleChangerState_Ready) None s)),
       do_load := (\<lambda>smp s. (Inr (), set_loaded_sample smp s)),
       do_unload := (\<lambda>slot s. (Inr (), reset_loaded_sample s))\<rparr>"


text \<open>
  \<open>twin_sc\<close>: the changer \<open>loaded_sc\<close> with a second \<open>Sample\<close> object for the
  address \<open>1:1\<close>, as a tree that is built again gives. \<open>swapping_device\<close>: its refresh
  finds the flag on the second object.
\<close>

definition twin_sc :: "unit sc" where
  "twin_sc = loaded_sc\<lparr>samples := (samples loaded_sc)(Suc 0 := example_sample ''1:1'')\<rparr>"

definition swapping_device :: "unit device" where
  "swapping_device =
     quiet_device\<lparr>do_update_info :=
       (\<lambda>s. (Inr (), set_loaded (Suc 0) True None (set_loaded 0 False None s)))\<rparr>"

subsection \<open>Vocabulary of the properties\<close>

text \<open>
  At most one \<open>Sample\<close> object of the tree has its \<open>loaded\<close> flag set. An object that
  stands at two places of the tree is one sample.
\<close>

definition at_most_one_loaded :: "'r sc \<Rightarrow> bool" where
  "at_most_one_loaded s \<longleftrightarrow> length (filter (is_loaded s) (remdups (get_sample_list s))) \<le> 1"


text \<open>A sequence of calls of \<open>_set_loaded_sample\<close> and \<open>_reset_loaded_sample\<close>.\<close>

datatype loaded_call = SetLoadedSample "oid option" | ResetLoadedSample

fun apply_loaded_call :: "loaded_call \<Rightarrow> 'r sc \<Rightarrow> 'r sc" where
  "apply_loaded_call (SetLoadedSample smp) s = set_loaded_sample smp s"
| "apply_loaded_call ResetLoadedSample s = reset_loaded_sample s"

fun apply_loaded_calls :: "loaded_call list \<Rightarrow> 'r sc \<Rightarrow> 'r sc" where
  "apply_loaded_calls [] s = s"
| "apply_loaded_calls (c # cs) s = apply_loaded_calls cs (apply_loaded_call c s)"

section \<open>The state machine\<close>

lemma tostring_Disabled: "tostring SampleChangerState_Disabled = ''Disabled''"
  by (simp add: tostring_def STATE_DESC_def sc_consts)


lemma is_ready_iff:
  "is_ready s \<longleftrightarrow> state s \<in> {SampleChangerState_Ready, SampleChangerState_Loaded,
      SampleChangerState_Charging, SampleChangerState_StandBy}"
  by (auto simp: is_ready_def)

lemma execute_task_not_ready:
  "\<not> is_ready s \<Longrightarrow> execute_task dev tk wait method s =
     (Inl (Exception (''Cannot execute task: bad state ('' @ tostring (state s) @ '')'')), s)"
  by (simp add: execute_task_def assert_can_execute_task_def)

lemma set_state_Some_state: "state (set_state (Some new) stat s) = new"
  by (simp add: set_state_def Let_def trigger_state_changed_event_def
      trigger_status_changed_event_def emit_def split: option.splits)



text \<open>
  C8. For every value of the state field, \<open>is_ready()\<close> is true exactly in the states
  Ready, Loaded, Charging and StandBy. In every other state \<open>assert_can_execute_task()\<close>
  raises the exception whose message names the current state through \<open>tostring\<close>, and
  so does \<open>_execute_task\<close>, which leaves the instance as it was: no task starts there.
  In the four states the precondition passes.
\<close>

theorem is_ready_states_and_precondition:
  "(is_ready s \<longleftrightarrow> state s \<in> {SampleChangerState_Ready, SampleChangerState_Loaded,
      SampleChangerState_Charging, SampleChangerState_StandBy})
   \<and> (state s \<notin> {SampleChangerState_Ready, SampleChangerState_Loaded,
          SampleChangerState_Charging, SampleChangerState_StandBy} \<longrightarrow>
        assert_can_execute_task s =
          Inl (Exception (''Cannot execute task: bad state ('' @ tostring (state s) @ '')''))
      \<and> execute_task dev tk wait method s =
          (Inl (Exception (''Cannot execute task: bad state ('' @ tostring (state s) @ '')'')), s))
   \<and> (state s \<in> {SampleChangerState_Ready, SampleChangerState_Loaded,
          SampleChangerState_Charging, SampleChangerState_StandBy} \<longrightarrow>
        assert_can_execute_task s = Inr ())"
  using execute_task_not_ready[of s dev tk wait "method"]
  by (auto simp: is_ready_iff assert_can_execute_task_def)

theorem is_ready_states_and_precondition_witness:
  "is_ready example_sc \<and> assert_can_execute_task example_sc = Inr ()
   \<and> \<not> is_ready (example_sc\<lparr>state := SampleChangerState_Loading\<rparr>)
   \<and> assert_can_execute_task (example_sc\<lparr>state := SampleChangerState_Loading\<rparr>) =
       Inl (Exception ''Cannot execute task: bad state (Loading)'')
   \<and> execute_task quiet_device SampleChangerState_Unloading True (do_unload quiet_device None)
        (example_sc\<lparr>state := SampleChangerState_Loading\<rparr>) =
       (Inl (Exception ''Cannot execute task: bad state (Loading)''),
        example_sc\<lparr>state := SampleChangerState_Loading\<rparr>)"
  using is_ready_states_and_precondition
      [of example_sc quiet_device SampleChangerState_Unloading True "do_unload quiet_device None"]
    is_ready_states_and_precondition
      [of "example_sc\<lparr>state := SampleChangerState_Loading\<rparr>" quiet_device
        SampleChangerState_Unloading True "do_unload quiet_device None"]
  by (simp add: example_sc_def sc_consts tostring_def STATE_DESC_def)




text \<open>
  What the two tests at the head of \<open>change_mode\<close> make of a call: with the mode
  Unknown, or with a mode whose number is the number of the current state, it returns
  \<open>None\<close> and leaves the instance as it was.
\<close>

lemma change_mode_noop:
  assumes "mode = SampleChangerMode_Unknown \<or> mode = get_state s"
  shows "change_mode dev mode wait s = (Inr None, s)"
  using assms by (auto simp: change_mode_def)

text \<open>
  C7 fails on the code for the mode Disabled. \<open>SampleChangerMode.Disabled\<close> is 11 and
  \<open>SampleChangerState.Disabled\<close> is 12 (11 is StandBy), so on a disabled changer the
  test \<open>mode == self.get_state()\<close> does not see that the requested mode is the current
  one, although \<open>change_mode\<close> itself pairs the mode Disabled with the state Disabled
  when it sets it. \<open>change_mode(SampleChangerMode.Disabled)\<close> on the disabled changer
  sets the state to Unknown, publishes the state and status events and refreshes;
  with a device that does nothing the call then raises and the changer is left in
  Unknown, and with a device whose refresh reports Ready a ChangingMode task runs and
  its task-finished event is published.
\<close>

theorem change_mode_Disabled_on_disabled_changer:
  "get_state disabled_sc = SampleChangerState_Disabled
   \<and> change_mode quiet_device SampleChangerMode_Disabled True disabled_sc
       \<noteq> (Inr None, disabled_sc)
   \<and> fst (change_mode quiet_device SampleChangerMode_Disabled True disabled_sc) =
       Inl (Exception ''Cannot execute task: bad state (Unknown)'')
   \<and> get_state (snd (change_mode quiet_device SampleChangerMode_Disabled True disabled_sc)) =
       SampleChangerState_Unknown
   \<and> events (snd (change_mode quiet_device SampleChangerMode_Disabled True disabled_sc)) =
       [StateChanged 0 12, StatusChanged ''Unknown'']
   \<and> fst (change_mode polling_device SampleChangerMode_Disabled True disabled_sc) =
       Inr (Some (Returned ()))
   \<and> get_state (snd (change_mode polling_device SampleChangerMode_Disabled True disabled_sc)) =
       SampleChangerState_Ready
   \<and> events (snd (change_mode polling_device SampleChangerMode_Disabled True disabled_sc)) =
       [StateChanged 0 12, StatusChanged ''Unknown'', StateChanged 1 0, StatusChanged ''Ready'',
        StateChanged 10 1, StatusChanged ''Changing Mode'', StateChanged 1 10,
        StatusChanged ''Ready'', TaskFinished (Some 10) (Some ()) None]"
proof -
  have a: "get_state disabled_sc = SampleChangerState_Disabled"
    and b: "fst (change_mode quiet_device SampleChangerMode_Disabled True disabled_sc) =
       Inl (Exception ''Cannot execute task: bad state (Unknown)'')"
    and c: "get_state (snd (change_mode quiet_device SampleChangerMode_Disabled True disabled_sc)) =
       SampleChangerState_Unknown"
    and d: "events (snd (change_mode quiet_device SampleChangerMode_Disabled True disabled_sc)) =
       [StateChanged 0 12, StatusChanged ''Unknown'']"
    and e: "fst (change_mode polling_device SampleChangerMode_Disabled True disabled_sc) =
       Inr (Some (Returned ()))"
    and f: "get_state (snd (change_mode polling_device SampleChangerMode_Disabled True disabled_sc)) =
       SampleChangerState_Ready"
    and g: "events (snd (change_mode polling_device SampleChangerMode_Disabled True disabled_sc)) =
       [StateChanged 0 12, StatusChanged ''Unknown'', StateChanged 1 0, StatusChanged ''Ready'',
        StateChanged 10 1, StatusChanged ''Changing Mode'', StateChanged 1 10,
        StatusChanged ''Ready'', TaskFinished (Some 10) (Some ()) None]"
    by code_simp+
  from b have "change_mode quiet_device SampleChangerMode_Disabled True disabled_sc
       \<noteq> (Inr None, disabled_sc)" by auto
  with a b c d e f g show ?thesis by blast
qed

text \<open>
  C10. From every state that is neither Disabled (12) nor equal to the value of the mode
  Disabled (11, the state StandBy), \<open>change_mode(SampleChangerMode.Disabled)\<close> first sets
  the state to Disabled and then raises at the precondition of \<open>_execute_task\<close>: the
  caller gets the exception, and the instance it is left with is the one
  \<open>_set_state(Disabled)\<close> produced, in the state Disabled.
\<close>

theorem change_mode_Disabled_persists:
  assumes "state s \<noteq> SampleChangerState_Disabled" and "state s \<noteq> SampleChangerMode_Disabled"
  shows "change_mode dev SampleChangerMode_Disabled wait s =
     (Inl (Exception ''Cannot execute task: bad state (Disabled)''),
      set_state (Some SampleChangerState_Disabled) None s)
   \<and> get_state (snd (change_mode dev SampleChangerMode_Disabled wait s)) =
       SampleChangerState_Disabled"
proof -
  let ?s1 = "set_state (Some SampleChangerState_Disabled) None s"
  have st: "state ?s1 = SampleChangerState_Disabled" by (rule set_state_Some_state)
  then have nr: "\<not> is_ready ?s1" by (simp add: is_ready_def sc_consts)
  have ex: "execute_task dev SampleChangerState_ChangingMode wait
        (do_change_mode dev SampleChangerMode_Disabled) ?s1
      = (Inl (Exception ''Cannot execute task: bad state (Disabled)''), ?s1)"
    using execute_task_not_ready[OF nr] st by (simp add: tostring_Disabled)
  have "change_mode dev SampleChangerMode_Disabled wait s =
      (Inl (Exception ''Cannot execute task: bad state (Disabled)''), ?s1)"
    using assms ex
    by (simp add: change_mode_def get_state_def SampleChangerMode_Disabled_def
        SampleChangerMode_Unknown_def)
  then show ?thesis using st by (simp add: get_state_def)
qed

theorem change_mode_Disabled_persists_witness:
  "state example_sc \<noteq> SampleChangerState_Disabled
   \<and> state example_sc \<noteq> SampleChangerMode_Disabled
   \<and> fst (change_mode quiet_device SampleChangerMode_Disabled True example_sc) =
       Inl (Exception ''Cannot execute task: bad state (Disabled)'')
   \<and> get_state (snd (change_mode quiet_device SampleChangerMode_Disabled True example_sc)) = 12
   \<and> events (snd (change_mode quiet_device SampleChangerMode_Disabled True example_sc)) =
       [StateChanged 12 1, StatusChanged ''Disabled'']"
proof -
  have h1: "state example_sc \<noteq> SampleChangerState_Disabled"
    and h2: "state example_sc \<noteq> SampleChangerMode_Disabled"
    by (simp_all add: example_sc_def sc_consts)
  have e: "set_state (Some SampleChangerState_Disabled) None example_sc =
      example_sc\<lparr>state := 12, status := ''Disabled'',
        events := [StateChanged 12 1, StatusChanged ''Disabled'']\<rparr>"
    by (simp add: set_state_def Let_def trigger_state_changed_event_def
      trigger_status_changed_event_def emit_def tostring_Disabled)
      (simp add: example_sc_def sc_consts)
  have c: "change_mode quiet_device SampleChangerMode_Disabled True example_sc =
     (Inl (Exception ''Cannot execute task: bad state (Disabled)''),
      set_state (Some SampleChangerState_Disabled) None example_sc)"
    using change_mode_Disabled_persists [OF h1 h2, of quiet_device True] by simp
  show ?thesis
    using h1 h2 by (simp add: c e get_state_def)
qed

section \<open>Failed tasks\<close>

lemma get_loaded_sample_events [simp]:
  "get_loaded_sample (s\<lparr>events := e\<rparr>) = get_loaded_sample s"
proof -
  have "is_loaded (s\<lparr>events := e\<rparr>) = is_loaded s"
    by (simp add: fun_eq_iff is_loaded_def)
  then show ?thesis by (simp add: get_loaded_sample_def get_sample_list_def)
qed

lemma get_address_events [simp]: "get_address (s\<lparr>events := e\<rparr>) r = get_address s r"
  by (simp add: get_address_def)

text \<open>
  What \<open>update_info()\<close> does when the refresh hook returns: the instance is the one the
  hook left, with the dirty flag cleared and at most two events more.
\<close>

lemma update_info_returns:
  assumes "do_update_info dev s = (Inr (), s1)"
  shows "update_info dev s =
     (Inr (), s1\<lparr>dirty := False,
        events := events s1
          @ (if is_dirty s1 then [InfoChanged] else [])
          @ (if get_loaded_sample s1 \<noteq> get_loaded_sample s
                \<and> (get_loaded_sample s1 = None \<or> get_loaded_sample s = None
                    \<or> get_address s1 (the (get_loaded_sample s1))
                        \<noteq> get_address s1 (the (get_loaded_sample s)))
             then [LoadedSampleChanged (get_loaded_sample s1)] else [])\<rparr>)"
  using assms
  by (simp add: update_info_def Let_def reset_dirty_def trigger_info_changed_event_def
      trigger_loaded_sample_changed_event_def emit_def)

text \<open>
  C1 fails on the code. A load whose callback raises, on a ready changer and a device
  whose refresh hook does nothing (as that of \<open>SampleChangerMockup\<close>): the caller gets
  the exception, the task-finished event is published, and \<open>get_state()\<close> is then
  Loading, the busy state of the task that failed. The docstring of \<open>_run\<close> ends a
  task with \<open>self._set_state(SampleChangerState.Ready)\<close> in a \<open>finally\<close>; in the
  body the two lines that set the state to Ready are commented out.
\<close>

theorem failed_task_stays_busy:
  "fst (execute_task failing_device SampleChangerState_Loading True
          (do_load failing_device (Some 0)) example_sc) = Inl (Exception ''boom'')
   \<and> get_state (snd (execute_task failing_device SampleChangerState_Loading True
          (do_load failing_device (Some 0)) example_sc)) = SampleChangerState_Loading
   \<and> get_state (snd (execute_task failing_device SampleChangerState_Loading True
          (do_load failing_device (Some 0)) example_sc))
       \<notin> {SampleChangerState_Ready, SampleChangerState_Disabled, SampleChangerState_Alarm,
           SampleChangerState_Fault}
   \<and> task (snd (execute_task failing_device SampleChangerState_Loading True
          (do_load failing_device (Some 0)) example_sc)) = None
   \<and> events (snd (execute_task failing_device SampleChangerState_Loading True
          (do_load failing_device (Some 0)) example_sc)) =
       [StateChanged 3 1, StatusChanged ''Loading'',
        TaskFinished (Some 3) None (Some (Exception ''boom''))]"
  by code_simp

text \<open>
  The same for every task kind and every callback that raises an \<open>Exception\<close>: once
  the refresh hook has returned, \<open>_run\<close> clears \<open>task\<close> and \<open>task_proc\<close>, publishes
  the task-finished event with the exception and raises it, and the state is the one
  the hook left. No line of \<open>_run\<close> assigns the state.
\<close>

lemma run_failed_task_state:
  assumes "method s = (Inl (Exception m), s1)" and "do_update_info dev s1 = (Inr (), s2)"
  shows "fst (run dev tk method s) = Inl (Exception m)
     \<and> get_state (snd (run dev tk method s)) = get_state s2
     \<and> task (snd (run dev tk method s)) = None
     \<and> task_proc (snd (run dev tk method s)) = None
     \<and> last (events (snd (run dev tk method s))) =
         TaskFinished (task s2) None (Some (Exception m))"
  using assms(1) update_info_returns[OF assms(2)]
  by (simp add: run_def Let_def on_task_failed_def trigger_task_finished_event_def emit_def
        get_state_def)

text \<open>
  C2 fails on the code. \<open>load\<close> of a sample, waiting, on the ready changer with nothing
  loaded and a \<open>_do_load\<close> that raises: the caller gets the exception and the
  task-finished event carries it, but \<open>get_task_error()\<close> returns \<open>None\<close>. \<open>_run\<close>
  keeps the exception in a local variable; \<open>task_error\<close> is assigned \<open>None\<close> in
  \<open>_execute_task\<close> and nowhere the exception.
\<close>

theorem task_error_not_stored:
  "\<exists>s'. load (Suc 0) failing_device (ArgObject 0) True example_sc =
          Some (Inl (Exception ''boom''), s')
     \<and> get_task_error s' = None
     \<and> last (events s') =
         TaskFinished (Some SampleChangerState_Loading) None (Some (Exception ''boom''))"
proof -
  let ?r = "load (Suc 0) failing_device (ArgObject 0) True example_sc"
  have a: "map_option fst ?r = Some (Inl (Exception ''boom''))"
    and b: "map_option (get_task_error \<circ> snd) ?r = Some None"
    and c: "map_option (last \<circ> events \<circ> snd) ?r =
        Some (TaskFinished (Some SampleChangerState_Loading) None (Some (Exception ''boom'')))"
    by code_simp+
  from a obtain x s' where r: "?r = Some (x, s')" by (cases ?r) auto
  with a b c show ?thesis by simp
qed

section \<open>The loaded sample\<close>

text \<open>The loops of the two methods write flags only.\<close>

lemma foldl_set_loaded_components:
  "components (foldl (\<lambda>st r. set_loaded r (f r) None st) s xs) = components s"
  by (induction xs arbitrary: s) (simp_all add: set_loaded_def Let_def)

lemma foldl_set_loaded_events:
  "events (foldl (\<lambda>st r. set_loaded r (f r) None st) s xs) = events s"
  by (induction xs arbitrary: s) (simp_all add: set_loaded_def Let_def)

lemma foldl_set_loaded_flag:
  "loaded (samples (foldl (\<lambda>st r. set_loaded r (f r) None st) s xs) r) =
     (if r \<in> set xs then f r else loaded (samples s r))"
  by (induction xs arbitrary: s) (auto simp: set_loaded_def Let_def)

lemma set_loaded_sample_alt:
  "set_loaded_sample smp s =
     trigger_loaded_sample_changed_event smp
       (foldl (\<lambda>st r. set_loaded r (Some r = smp) None st) s (get_sample_list s))"
proof -
  have "(\<lambda>st r. if Some r \<noteq> smp then set_loaded r False None st else set_loaded r True None st)
      = (\<lambda>(st::'a sc) r. set_loaded r (Some r = smp) None st)"
    by (auto simp: fun_eq_iff)
  then show ?thesis by (simp add: set_loaded_sample_def)
qed

lemma get_sample_list_set_loaded_sample:
  "get_sample_list (set_loaded_sample smp s) = get_sample_list s"
  by (simp add: set_loaded_sample_alt get_sample_list_def trigger_loaded_sample_changed_event_def
      emit_def foldl_set_loaded_components)

lemma get_sample_list_reset_loaded_sample:
  "get_sample_list (reset_loaded_sample s) = get_sample_list s"
  by (simp add: reset_loaded_sample_def get_sample_list_def trigger_loaded_sample_changed_event_def
      emit_def foldl_set_loaded_components)

lemma is_loaded_set_loaded_sample:
  "r \<in> set (get_sample_list s) \<Longrightarrow> is_loaded (set_loaded_sample smp s) r \<longleftrightarrow> Some r = smp"
  by (simp add: set_loaded_sample_alt is_loaded_def trigger_loaded_sample_changed_event_def
      emit_def foldl_set_loaded_flag)

lemma is_loaded_reset_loaded_sample:
  "r \<in> set (get_sample_list s) \<Longrightarrow> \<not> is_loaded (reset_loaded_sample s) r"
  by (simp add: reset_loaded_sample_def is_loaded_def trigger_loaded_sample_changed_event_def
      emit_def foldl_set_loaded_flag)

text \<open>A duplicate-free list whose members with \<open>P\<close> are all one value holds at most one.\<close>

lemma filter_remdups_le_one:
  assumes "\<And>r. r \<in> set xs \<Longrightarrow> P r \<Longrightarrow> Some r = a"
  shows "length (filter P (remdups xs)) \<le> 1"
proof -
  let ?ys = "filter P (remdups xs)"
  have d: "distinct ?ys" by simp
  have "set ?ys \<subseteq> (case a of None \<Rightarrow> {} | Some x \<Rightarrow> {x})"
    using assms by (auto split: option.splits)
  then have "card (set ?ys) \<le> card (case a of None \<Rightarrow> {} | Some x \<Rightarrow> {x})"
    by (intro card_mono) (auto split: option.splits)
  also have "\<dots> \<le> 1" by (simp split: option.splits)
  finally show ?thesis using distinct_card[OF d] by simp
qed

lemma at_most_one_loaded_set_loaded_sample: "at_most_one_loaded (set_loaded_sample smp s)"
  unfolding at_most_one_loaded_def
  by (rule filter_remdups_le_one[where a = smp])
    (simp add: is_loaded_set_loaded_sample get_sample_list_set_loaded_sample)

lemma at_most_one_loaded_reset_loaded_sample: "at_most_one_loaded (reset_loaded_sample s)"
  unfolding at_most_one_loaded_def
  by (rule filter_remdups_le_one[where a = None])
    (simp add: is_loaded_reset_loaded_sample get_sample_list_reset_loaded_sample)

lemma at_most_one_loaded_call: "at_most_one_loaded (apply_loaded_call c s)"
  by (cases c) (simp_all add: at_most_one_loaded_set_loaded_sample
      at_most_one_loaded_reset_loaded_sample)

lemma at_most_one_loaded_calls:
  "calls \<noteq> [] \<or> at_most_one_loaded s \<Longrightarrow> at_most_one_loaded (apply_loaded_calls calls s)"
proof (induction calls arbitrary: s)
  case Nil
  then show ?case by simp
next
  case (Cons c cs)
  have "at_most_one_loaded (apply_loaded_call c s)" by (rule at_most_one_loaded_call)
  then show ?case using Cons.IH[of "apply_loaded_call c s"] by simp
qed

text \<open>
  C4. For every tree and every sequence of calls of \<open>_set_loaded_sample\<close> and
  \<open>_reset_loaded_sample\<close>, at most one \<open>Sample\<close> of the tree is loaded after the
  sequence: after one call or more whatever the flags were before, and after no call
  when at most one was loaded before. \<open>_set_loaded_sample(sample)\<close> leaves the tree as
  it is and, of its samples, exactly \<open>sample\<close> loaded: every other flag is cleared.
  \<open>_reset_loaded_sample()\<close> clears them all.
\<close>

theorem at_most_one_loaded_after_calls:
  "(calls \<noteq> [] \<or> at_most_one_loaded s \<longrightarrow> at_most_one_loaded (apply_loaded_calls calls s))
   \<and> get_sample_list (set_loaded_sample smp s) = get_sample_list s
   \<and> (\<forall>r \<in> set (get_sample_list s). is_loaded (set_loaded_sample smp s) r \<longleftrightarrow> Some r = smp)
   \<and> (\<forall>r \<in> set (get_sample_list s). \<not> is_loaded (reset_loaded_sample s) r)"
  using at_most_one_loaded_calls[of calls s]
  by (simp add: is_loaded_set_loaded_sample is_loaded_reset_loaded_sample
      get_sample_list_set_loaded_sample)

text \<open>The witness starts from a tree with two samples loaded.\<close>

theorem at_most_one_loaded_after_calls_witness:
  "\<not> at_most_one_loaded (set_loaded (Suc 0) True None loaded_sc)
   \<and> at_most_one_loaded
        (apply_loaded_calls [SetLoadedSample (Some 0), ResetLoadedSample, SetLoadedSample (Some 2)]
           (set_loaded (Suc 0) True None loaded_sc))
   \<and> map (is_loaded (set_loaded_sample (Some 2) (set_loaded (Suc 0) True None loaded_sc)))
        (get_sample_list (set_loaded (Suc 0) True None loaded_sc)) = [False, False, True]"
proof -
  have a: "\<not> at_most_one_loaded (set_loaded (Suc 0) True None loaded_sc)"
    by code_simp
  have b: "get_sample_list (set_loaded (Suc 0) True None loaded_sc) = [0, Suc 0, 2]"
    by code_simp
  show ?thesis
    using a at_most_one_loaded_after_calls
      [of "[SetLoadedSample (Some 0), ResetLoadedSample, SetLoadedSample (Some 2)]"
        "set_loaded (Suc 0) True None loaded_sc" "Some 2"]
    by (simp add: b)
qed

text \<open>
  C5, as the claim states it, fails: \<open>_set_loaded_sample\<close> publishes the event with no
  comparison at all. Here the sample \<open>1:1\<close> is loaded, \<open>_set_loaded_sample\<close> is called
  with the same object, the loaded sample and its address are what they were, and the
  event is published.
\<close>

theorem set_loaded_sample_event_counterexample:
  "get_loaded_sample loaded_sc = Some 0
   \<and> get_loaded_sample (set_loaded_sample (Some 0) loaded_sc) = Some 0
   \<and> get_address (set_loaded_sample (Some 0) loaded_sc) 0 = get_address loaded_sc 0
   \<and> events (set_loaded_sample (Some 0) loaded_sc) =
       events loaded_sc @ [LoadedSampleChanged (Some 0)]"
  by code_simp

text \<open>
  C5, amended. \<open>_set_loaded_sample(sample)\<close> publishes loaded-sample-changed once,
  carrying \<open>sample\<close>, on every call. The comparison by address is that of
  \<open>update_info()\<close>: when the refresh hook returns, it publishes loaded-sample-changed
  only if the loaded sample found after the hook is another object than the one found
  before and one of the two is \<open>None\<close> or their addresses differ; when the loaded sample
  has the same address as before, \<open>update_info()\<close> publishes no such event.
\<close>

theorem loaded_sample_changed_events:
  "events (set_loaded_sample smp s) = events s @ [LoadedSampleChanged smp]
   \<and> (do_update_info dev s = (Inr (), s1) \<longrightarrow>
        events (snd (update_info dev s)) =
          events s1
          @ (if is_dirty s1 then [InfoChanged] else [])
          @ (if get_loaded_sample s1 \<noteq> get_loaded_sample s
                \<and> (get_loaded_sample s1 = None \<or> get_loaded_sample s = None
                    \<or> get_address s1 (the (get_loaded_sample s1))
                        \<noteq> get_address s1 (the (get_loaded_sample s)))
             then [LoadedSampleChanged (get_loaded_sample s1)] else []))"
proof -
  have "events (set_loaded_sample smp s) = events s @ [LoadedSampleChanged smp]"
    by (simp add: set_loaded_sample_alt trigger_loaded_sample_changed_event_def emit_def
        foldl_set_loaded_events)
  moreover have "do_update_info dev s = (Inr (), s1) \<Longrightarrow> ?thesis"
    using calculation by (simp add: update_info_returns)
  ultimately show ?thesis by blast
qed

text \<open>
  The witness: a refresh that finds the flag moved from \<open>1:1\<close> to \<open>1:2\<close> (the event is
  published, after info-changed), one that finds it moved to another object with the
  same address \<open>1:1\<close> (info-changed only), and one that finds nothing new (no event).
\<close>

theorem loaded_sample_changed_events_witness:
  "events (set_loaded_sample (Some 0) loaded_sc) = [LoadedSampleChanged (Some 0)]
   \<and> events (snd (update_info swapping_device loaded_sc)) =
       [InfoChanged, LoadedSampleChanged (Some (Suc 0))]
   \<and> get_loaded_sample twin_sc = Some 0
   \<and> get_loaded_sample (snd (update_info swapping_device twin_sc)) = Some (Suc 0)
   \<and> get_address twin_sc (Suc 0) = get_address twin_sc 0
   \<and> events (snd (update_info swapping_device twin_sc)) = [InfoChanged]
   \<and> events (snd (update_info quiet_device loaded_sc)) = []"
proof -
  let ?s1 = "set_loaded (Suc 0) True None (set_loaded 0 False None loaded_sc)"
  let ?t1 = "set_loaded (Suc 0) True None (set_loaded 0 False None twin_sc)"
  have h1: "do_update_info swapping_device loaded_sc = (Inr (), ?s1)"
    and h2: "do_update_info quiet_device loaded_sc = (Inr (), loaded_sc)"
    and h3: "do_update_info swapping_device twin_sc = (Inr (), ?t1)"
    by (simp_all add: swapping_device_def quiet_device_def)
  have e: "events loaded_sc = []" "events ?s1 = []" "events ?t1 = []"
    by code_simp+
  have g: "get_loaded_sample loaded_sc = Some 0" "get_loaded_sample ?s1 = Some (Suc 0)"
    "get_loaded_sample twin_sc = Some 0" "get_loaded_sample ?t1 = Some (Suc 0)"
    "get_loaded_sample (snd (update_info swapping_device twin_sc)) = Some (Suc 0)"
    by code_simp+
  have a: "get_address ?s1 (Suc 0) \<noteq> get_address ?s1 0"
    "get_address ?t1 (Suc 0) = get_address ?t1 0"
    "get_address twin_sc (Suc 0) = get_address twin_sc 0"
    by code_simp+
  have d: "\<not> is_dirty loaded_sc" "is_dirty ?s1" "is_dirty ?t1"
    by code_simp+
  show ?thesis
    using loaded_sample_changed_events [of "Some 0" loaded_sc swapping_device ?s1]
      loaded_sample_changed_events [of "Some 0" loaded_sc quiet_device loaded_sc]
      loaded_sample_changed_events [of "Some 0" twin_sc swapping_device ?t1] h1 h2 h3
    by (simp add: e g a d)
qed

section \<open>Chained load\<close>



section \<open>The update timer\<close>

text \<open>
  C9, as the claim states it, fails in one point: the counter is reset to 0 after
  \<open>_on_timer_update()\<close> has returned, and when that call raises (here the device's
  refresh raises), \<^verbatim>\<open>except BaseException: pass\<close> ends the cycle before the reset. The
  changer is enabled, the counter is 0, and after the cycle it is 1.
\<close>

theorem update_timer_counter_counterexample:
  "is_enabled example_sc
   \<and> timer_update_counter example_sc = 0
   \<and> timer_update_counter (update_timer_cycle broken_refresh_device example_sc) = 1"
  by code_simp

text \<open>
  C9, amended. The guard compares the counter with itself and holds for every integer,
  so on every enabled cycle, whatever the counter and whatever interval
  \<open>_set_timer_update_interval\<close> has configured, \<open>_on_timer_update\<close> is called on the
  instance with the counter incremented; the counter is reset to 0 when that call
  returns, and when it raises the exception is swallowed and the instance stays as the
  call left it.
\<close>

theorem update_timer_cycle_ignores_interval:
  assumes "is_enabled s"
  shows "update_timer_cycle dev (set_timer_update_interval v s) =
      (case on_timer_update dev
              (set_timer_update_interval v s\<lparr>timer_update_counter := timer_update_counter s + 1\<rparr>) of
         (Inl e, s2) \<Rightarrow> s2
       | (Inr u, s2) \<Rightarrow> s2\<lparr>timer_update_counter := 0\<rparr>)
     \<and> (\<forall>u s2. on_timer_update dev
              (set_timer_update_interval v s\<lparr>timer_update_counter := timer_update_counter s + 1\<rparr>)
            = (Inr u, s2) \<longrightarrow>
          timer_update_counter (update_timer_cycle dev (set_timer_update_interval v s)) = 0)"
  using assms
  by (simp add: update_timer_cycle_def set_timer_update_interval_def is_enabled_def)

text \<open>
  The witness: an interval of 1000 periods, and the refresh runs on the first cycle
  (the state goes from Loading to Ready) and the counter is 0 after it.
\<close>

theorem update_timer_cycle_ignores_interval_witness:
  "is_enabled (example_sc\<lparr>state := SampleChangerState_Loading\<rparr>)
   \<and> timer_update_counter (update_timer_cycle polling_device
        (set_timer_update_interval 1000 (example_sc\<lparr>state := SampleChangerState_Loading\<rparr>))) = 0
   \<and> events (update_timer_cycle polling_device
        (set_timer_update_interval 1000 (example_sc\<lparr>state := SampleChangerState_Loading\<rparr>)))
       = [StateChanged 1 3]"
proof -
  let ?s = "example_sc\<lparr>state := SampleChangerState_Loading\<rparr>"
  have h: "is_enabled ?s"
    by code_simp
  have o: "fst (on_timer_update polling_device
        (set_timer_update_interval 1000 ?s\<lparr>timer_update_counter := timer_update_counter ?s + 1\<rparr>))
      = Inr ()"
    by code_simp
  have ev: "events (snd (on_timer_update polling_device
        (set_timer_update_interval 1000 ?s\<lparr>timer_update_counter := timer_update_counter ?s + 1\<rparr>)))
      = [StateChanged 1 3]"
    by code_simp
  note th = update_timer_cycle_ignores_interval [OF h, of polling_device 1000]
  from o th have c0: "timer_update_counter (update_timer_cycle polling_device
        (set_timer_update_interval 1000 ?s)) = 0"
    by (metis prod.collapse)
  from th have "update_timer_cycle polling_device (set_timer_update_interval 1000 ?s) =
      (case on_timer_update polling_device
              (set_timer_update_interval 1000 ?s\<lparr>timer_update_counter := timer_update_counter ?s + 1\<rparr>) of
         (Inl e, s2) \<Rightarrow> s2
       | (Inr u, s2) \<Rightarrow> s2\<lparr>timer_update_counter := 0\<rparr>)"
    by (rule conjunct1)
  then have "events (update_timer_cycle polling_device (set_timer_update_interval 1000 ?s)) =
      [StateChanged 1 3]"
    using o ev by (simp split: prod.splits sum.splits)
  with h c0 show ?thesis by simp
qed

end
